theory Spec2Isabelle
  imports Main
begin

section \<open>Python values, exceptions and dictionaries\<close>

text \<open>
  The module \<^verbatim>\<open>voxelmorph/tensorflow_backend/model_io.py\<close> holds the decorator
  \<^verbatim>\<open>store_config_args\<close> and the class \<^verbatim>\<open>LoadableModel\<close>. Exceptions are values:
  every function that can raise returns a sum whose left side is the exception.
\<close>

datatype error =
    TypeError
  | ValueError
  | KeyError string
  | AttributeError string
  | RuntimeError string
  | OSError
  | LookupError
  | UnicodeDecodeError
  | JSONDecodeError

text \<open>
  A Python \<^verbatim>\<open>dict\<close> with string keys, in insertion order. \<open>dict_set d k v\<close> is the
  assignment \<^verbatim>\<open>d[k] = v\<close>: an existing key keeps its place and takes the new value, a
  new key goes to the end.
\<close>

type_synonym 'v dict = "(string \<times> 'v) list"

fun dict_set :: "'v dict \<Rightarrow> string \<Rightarrow> 'v \<Rightarrow> 'v dict" where
  "dict_set [] k v = [(k, v)]"
| "dict_set ((k', v') # d) k v =
     (if k' = k then (k', v) # d else (k', v') # dict_set d k v)"

definition keys :: "'v dict \<Rightarrow> string list" where
  "keys d = map fst d"

text \<open>The values \<^verbatim>\<open>json.loads\<close> produces (numbers are kept to the integers).\<close>

datatype pyval =
    PNone
  | PBool bool
  | PInt int
  | PStr string
  | PList "pyval list"
  | PDict "(string \<times> pyval) list"

section \<open>Model instances and methods\<close>

text \<open>
  An instance carries the attribute \<^verbatim>\<open>config\<close> (\<open>None\<close> when the attribute is not set, so
  that \<^verbatim>\<open>hasattr(self, 'config')\<close> is \<open>config self \<noteq> None\<close>) and everything else the
  framework and the subclass keep on the object (\<open>rest\<close>). The attribute holds a \<^verbatim>\<open>dict\<close>
  object: \<open>config\<close> is what the object contains, \<open>config_oid\<close> is which object it is
  (read only when the attribute is set). A new object takes the number \<open>next_oid\<close> as its
  identity; this counter of the objects created so far is the interpreter's, and it
  travels with the instance, the one state the functions here pass on.
\<close>

record ('v, 'x) model_instance =
  config :: "'v dict option"
  config_oid :: nat
  next_oid :: nat
  rest :: 'x

text \<open>
  A method called as \<^verbatim>\<open>f(self, *args, **kwargs)\<close> returns or raises, and leaves the
  instance in a new state either way.
\<close>

type_synonym ('r, 'v, 'x) pymethod =
  "('v, 'x) model_instance \<Rightarrow> 'v list \<Rightarrow> 'v dict \<Rightarrow> (error + 'r) \<times> ('v, 'x) model_instance"

section \<open>store_config_args\<close>

text \<open>The four fields of \<^verbatim>\<open>inspect.getargspec(func)\<close>; \<open>defaults\<close> is \<^verbatim>\<open>None\<close> or a tuple.\<close>

record 'v argspec =
  attrs :: "string list"
  varargs :: "string option"
  varkw :: "string option"
  defaults :: "'v list option"

text \<open>
  A function object as the decorator sees it: what \<^verbatim>\<open>inspect.getargspec\<close> answers for it
  (the library may raise) and what calling it does.
\<close>

record ('r, 'v, 'x) pyfunc =
  getargspec :: "error + 'v argspec"
  call :: "('r, 'v, 'x) pymethod"

text \<open>\<^verbatim>\<open>self.config[attr] = val\<close>; the wrapper has set \<^verbatim>\<open>self.config\<close> before.\<close>

definition config_setitem ::
  "('v, 'x) model_instance \<Rightarrow> string \<Rightarrow> 'v \<Rightarrow> ('v, 'x) model_instance" where
  "config_setitem self attr v =
     (case config self of
        None \<Rightarrow> self
      | Some d \<Rightarrow> self\<lparr>config := Some (dict_set d attr v)\<rparr>)"

text \<open>The loop \<^verbatim>\<open>for attr, val in pairs: self.config[attr] = val\<close> of lines 23, 27 and 32.\<close>

fun config_setitems ::
  "('v, 'x) model_instance \<Rightarrow> (string \<times> 'v) list \<Rightarrow> ('v, 'x) model_instance" where
  "config_setitems self [] = self"
| "config_setitems self ((attr, v) # pairs) = config_setitems (config_setitem self attr v) pairs"

text \<open>
  Lines 19 to 33 of the wrapper: the instance after the three passes. Line 19 creates a new
  \<^verbatim>\<open>dict\<close> object and stores it in the attribute; the passes write into that object.
  \<^verbatim>\<open>zip\<close> stops at the shorter list, \<^verbatim>\<open>attrs[1:]\<close> of an empty list is empty, and an
  empty tuple or dict is false.
\<close>

definition record_args ::
  "'v argspec \<Rightarrow> ('v, 'x) model_instance \<Rightarrow> 'v list \<Rightarrow> 'v dict \<Rightarrow> ('v, 'x) model_instance" where
  "record_args spec self args kwargs =
     (let self1 = self\<lparr>config := Some [], config_oid := next_oid self,
                       next_oid := Suc (next_oid self)\<rparr>;
          self2 = (case defaults spec of
                     None \<Rightarrow> self1
                   | Some ds \<Rightarrow>
                       if ds \<noteq> [] then config_setitems self1 (zip (rev (attrs spec)) (rev ds))
                       else self1);
          self3 = config_setitems self2 (zip (drop 1 (attrs spec)) args);
          self4 = (if kwargs \<noteq> [] then config_setitems self3 kwargs else self3)
      in self4)"

text \<open>
  The wrapper, lines 18 to 35, called with the instance as first positional argument (as
  the class call and \<^verbatim>\<open>super().__init__\<close> do). Line 18 names its first parameter
  \<^verbatim>\<open>self\<close>, so a keyword argument of that name gives the parameter a second value: the
  call raises \<^verbatim>\<open>TypeError\<close> before line 19. Line 35 is
  \<^verbatim>\<open>return func(self, *args, **kwargs)\<close>.
\<close>

definition wrapper :: "'v argspec \<Rightarrow> ('r, 'v, 'x) pymethod \<Rightarrow> ('r, 'v, 'x) pymethod" where
  "wrapper spec func self args kwargs =
     (if ''self'' \<in> set (keys kwargs) then (Inl TypeError, self)
      else func (record_args spec self args kwargs) args kwargs)"

text \<open>
  The decorator: line 15 runs once, when the decorator is applied, and the wrapper closes
  over its result.
\<close>

definition store_config_args :: "('r, 'v, 'x) pyfunc \<Rightarrow> error + ('r, 'v, 'x) pymethod" where
  "store_config_args func =
     (case getargspec func of
        Inl e \<Rightarrow> Inl e
      | Inr spec \<Rightarrow> Inr (wrapper spec (call func)))"

section \<open>LoadableModel\<close>

text \<open>
  \<^verbatim>\<open>LoadableModel.__init__\<close>; \<open>super_init\<close> is \<^verbatim>\<open>keras.Model.__init__\<close>, which is not
  part of the repository.
\<close>

definition LoadableModel_init :: "('r, 'v, 'x) pymethod \<Rightarrow> ('r, 'v, 'x) pymethod" where
  "LoadableModel_init super_init self args kwargs =
     (if config self = None
      then (Inl (RuntimeError
          ''models that inherit from LoadableModel must decorate the constructor with @store_config_args''),
        self)
      else super_init self args kwargs)"

text \<open>
  \<^verbatim>\<open>get_config\<close>, line 65: the value of the attribute, a reference to a \<^verbatim>\<open>dict\<close> object,
  given as the identity of the object and what it contains.
\<close>

definition get_config :: "('v, 'x) model_instance \<Rightarrow> error + nat \<times> 'v dict" where
  "get_config self =
     (case config self of
        None \<Rightarrow> Inl (AttributeError ''config'')
      | Some c \<Rightarrow> Inr (config_oid self, c))"

text \<open>
  A concrete subclass: the object \<^verbatim>\<open>__new__\<close> hands to \<^verbatim>\<open>__init__\<close>, and its
  \<^verbatim>\<open>__init__\<close>, which returns \<^verbatim>\<open>None\<close> (\<open>None\<close>) or, wrongly, something else.
  \<open>construct cls args kwargs\<close> is the call \<^verbatim>\<open>cls(*args, **kwargs)\<close>.
\<close>

record ('v, 'x) pyclass =
  new_instance :: "('v, 'x) model_instance"
  init :: "('v option, 'v, 'x) pymethod"

definition construct ::
  "('v, 'x) pyclass \<Rightarrow> 'v list \<Rightarrow> 'v dict \<Rightarrow> error + ('v, 'x) model_instance" where
  "construct cls args kwargs =
     (case init cls (new_instance cls) args kwargs of
        (Inl e, _) \<Rightarrow> Inl e
      | (Inr None, self) \<Rightarrow> Inr self
      | (Inr (Some _), _) \<Rightarrow> Inl TypeError)"

definition from_config ::
  "('v, 'x) pyclass \<Rightarrow> 'v dict \<Rightarrow> 'c option \<Rightarrow> error + ('v, 'x) model_instance" where
  "from_config cls cfg custom_objects = construct cls [] cfg"

section \<open>Loading from a container file\<close>

text \<open>
  What the module takes from outside: \<^verbatim>\<open>h5py.File(path, mode=...)\<close> (the attributes of the
  file it opens in that mode, or the file layer's exception), \<^verbatim>\<open>bytes.decode(codec)\<close>,
  \<^verbatim>\<open>json.loads\<close> and the framework's \<^verbatim>\<open>load_weights\<close>. A byte string is a list of
  byte values, a text is a \<open>string\<close>; an attribute value read from the file is a byte
  string or, with other versions of the file library, already text.
\<close>

type_synonym bytes = "nat list"

datatype h5attr = AttrBytes bytes | AttrStr string

type_synonym h5file = "string \<Rightarrow> h5attr option"

record 'x externals =
  h5py_File :: "string \<Rightarrow> string \<Rightarrow> error + h5file"
  bytes_decode :: "string \<Rightarrow> bytes \<Rightarrow> error + string"
  json_loads :: "string \<Rightarrow> error + pyval"
  load_weights ::
    "(pyval, 'x) model_instance \<Rightarrow> string \<Rightarrow> bool \<Rightarrow> (error + unit) \<times> (pyval, 'x) model_instance"

text \<open>The calls \<open>load\<close> makes to the outside, in the order it makes them.\<close>

datatype event =
    FileOpened string string
  | AttrRead string
  | FileClosed string
  | ConstructorCalled "pyval dict"
  | LoadWeightsCalled string bool

text \<open>\<^verbatim>\<open>x.decode('utf-8')\<close>: only a byte string has the method.\<close>

definition attr_decode :: "'x externals \<Rightarrow> h5attr \<Rightarrow> error + string" where
  "attr_decode ext a =
     (case a of
        AttrBytes b \<Rightarrow> bytes_decode ext ''utf-8'' b
      | AttrStr s \<Rightarrow> Inl (AttributeError ''decode''))"

text \<open>\<^verbatim>\<open>x[key]\<close> with a string key: a lookup in a dict, a \<^verbatim>\<open>TypeError\<close> on anything else.\<close>

definition getitem :: "pyval \<Rightarrow> string \<Rightarrow> error + pyval" where
  "getitem x key =
     (case x of
        PDict d \<Rightarrow> (case map_of d key of None \<Rightarrow> Inl (KeyError key) | Some v \<Rightarrow> Inr v)
      | _ \<Rightarrow> Inl TypeError)"

text \<open>The unpacking \<^verbatim>\<open>**config\<close>: the value has to be a mapping.\<close>

definition kwargs_of :: "pyval \<Rightarrow> error + pyval dict" where
  "kwargs_of x = (case x of PDict d \<Rightarrow> Inr d | _ \<Rightarrow> Inl TypeError)"

text \<open>Line 83, the body of the \<^verbatim>\<open>with\<close> block.\<close>

definition read_model_config ::
  "'x externals \<Rightarrow> h5file \<Rightarrow> event list \<Rightarrow> (error + pyval) \<times> event list" where
  "read_model_config ext f tr =
     (let tr1 = tr @ [AttrRead ''model_config''] in
      case f ''model_config'' of
        None \<Rightarrow> (Inl (KeyError ''model_config''), tr1)
      | Some a \<Rightarrow>
          (case attr_decode ext a of
             Inl e \<Rightarrow> (Inl e, tr1)
           | Inr s \<Rightarrow>
               (case json_loads ext s of
                  Inl e \<Rightarrow> (Inl e, tr1)
                | Inr parsed \<Rightarrow> (getitem parsed ''config'', tr1))))"

text \<open>
  The statement \<^verbatim>\<open>with h5py.File(path, mode=mode) as f\<close>: when the file opens, the block
  runs and the file is closed, whether the block returned or raised.
\<close>

definition with_File ::
  "'x externals \<Rightarrow> string \<Rightarrow> string \<Rightarrow>
     (h5file \<Rightarrow> event list \<Rightarrow> (error + 'a) \<times> event list) \<Rightarrow>
     event list \<Rightarrow> (error + 'a) \<times> event list" where
  "with_File ext path mode block tr =
     (case h5py_File ext path mode of
        Inl e \<Rightarrow> (Inl e, tr)
      | Inr f \<Rightarrow>
          (case block f (tr @ [FileOpened path mode]) of
             (r, tr1) \<Rightarrow> (r, tr1 @ [FileClosed path])))"

text \<open>What a run that reads the attribute and closes the file leaves in the trace.\<close>

abbreviation read_events :: "string \<Rightarrow> event list" where
  "read_events path \<equiv> [FileOpened path ''r'', AttrRead ''model_config'', FileClosed path]"

text \<open>\<^verbatim>\<open>LoadableModel.load\<close>, lines 82 to 86.\<close>

definition load ::
  "'x externals \<Rightarrow> (pyval, 'x) pyclass \<Rightarrow> string \<Rightarrow> bool \<Rightarrow> event list \<Rightarrow>
     (error + (pyval, 'x) model_instance) \<times> event list" where
  "load ext cls path by_name tr =
     (case with_File ext path ''r'' (read_model_config ext) tr of
        (Inl e, tr1) \<Rightarrow> (Inl e, tr1)
      | (Inr cfg, tr1) \<Rightarrow>
          (case kwargs_of cfg of
             Inl e \<Rightarrow> (Inl e, tr1)
           | Inr kw \<Rightarrow>
               (case construct cls [] kw of
                  Inl e \<Rightarrow> (Inl e, tr1 @ [ConstructorCalled kw])
                | Inr model \<Rightarrow>
                    (case load_weights ext model path by_name of
                       (Inl e, _) \<Rightarrow>
                         (Inl e, tr1 @ [ConstructorCalled kw, LoadWeightsCalled path by_name])
                     | (Inr _, model') \<Rightarrow>
                         (Inr model', tr1 @ [ConstructorCalled kw, LoadWeightsCalled path by_name])))))"

section \<open>Calling a Python function\<close>

text \<open>
  The language's rule for a call \<^verbatim>\<open>func(self, *args, **kwargs)\<close> of a function defined
  with \<^verbatim>\<open>def\<close>, which line 35 relies on: positional values fill the parameters in order
  (the instance first), a keyword fills the parameter of its name, a parameter left over
  takes its default; extra positional values go to \<^verbatim>\<open>*varargs\<close> and unknown keywords to
  \<^verbatim>\<open>**varkw\<close> when the signature has them. A value given twice, a parameter left
  unfilled, or an extra value with nowhere to go is a \<^verbatim>\<open>TypeError\<close>. The signature is
  the one \<^verbatim>\<open>inspect.getargspec\<close> reports: it has no keyword-only parameters (the library
  raises on them). \<open>py_bind\<close> is the rule for a function none of whose parameters is
  positional-only; \<open>py_bind_posonly\<close> below is the rule for every function.
\<close>

datatype 'v bound = Instance | Value 'v

record 'v bindings =
  named :: "(string \<times> 'v bound) list"
  star :: "'v bound list"
  starstar :: "'v dict"

text \<open>The defaults belong to the last parameters: each parameter with its default, if any.\<close>

definition param_defaults :: "'v argspec \<Rightarrow> 'v bound option list" where
  "param_defaults spec =
     (let ds = (case defaults spec of None \<Rightarrow> [] | Some ds \<Rightarrow> ds)
      in replicate (length (attrs spec) - length ds) None @ map (\<lambda>d. Some (Value d)) ds)"

fun bind_params ::
  "(string \<times> 'v bound option) list \<Rightarrow> 'v bound list \<Rightarrow> 'v dict \<Rightarrow> error + (string \<times> 'v bound) list" where
  "bind_params [] xs kw = Inr []"
| "bind_params ((p, d) # ps) (x # xs) kw =
     (if p \<in> set (keys kw) then Inl TypeError
      else case bind_params ps xs kw of
             Inl e \<Rightarrow> Inl e
           | Inr env \<Rightarrow> Inr ((p, x) # env))"
| "bind_params ((p, d) # ps) [] kw =
     (case (case map_of kw p of Some v \<Rightarrow> Some (Value v) | None \<Rightarrow> d) of
        None \<Rightarrow> Inl TypeError
      | Some v \<Rightarrow>
          (case bind_params ps [] kw of
             Inl e \<Rightarrow> Inl e
           | Inr env \<Rightarrow> Inr ((p, v) # env)))"

definition py_bind :: "'v argspec \<Rightarrow> 'v bound list \<Rightarrow> 'v dict \<Rightarrow> error + 'v bindings" where
  "py_bind spec pos kw =
     (if varargs spec = None \<and> length (attrs spec) < length pos then Inl TypeError
      else if varkw spec = None \<and> (\<exists>k \<in> set (keys kw). k \<notin> set (attrs spec)) then Inl TypeError
      else case bind_params (zip (attrs spec) (param_defaults spec)) pos kw of
             Inl e \<Rightarrow> Inl e
           | Inr env \<Rightarrow>
               Inr \<lparr>named = env,
                    star = drop (length (attrs spec)) pos,
                    starstar = filter (\<lambda>(k, v). k \<notin> set (attrs spec)) kw\<rparr>)"

text \<open>
  The first \<open>k\<close> parameters of a function may be positional-only (the ones before a
  \<^verbatim>\<open>/\<close> in the parameter list); \<^verbatim>\<open>inspect.getargspec\<close> lists them with the others and
  does not tell. A keyword cannot fill such a parameter: a keyword of its name is an
  unknown keyword, which goes to \<^verbatim>\<open>**varkw\<close> or is a \<^verbatim>\<open>TypeError\<close>; the parameter takes a
  positional value or its default.
\<close>

definition py_bind_posonly ::
  "nat \<Rightarrow> 'v argspec \<Rightarrow> 'v bound list \<Rightarrow> 'v dict \<Rightarrow> error + 'v bindings" where
  "py_bind_posonly k spec pos kw =
     (if varkw spec = None \<and> (\<exists>n \<in> set (keys kw). n \<in> set (take k (attrs spec)))
      then Inl TypeError
      else case py_bind spec pos (filter (\<lambda>(n, v). n \<notin> set (take k (attrs spec))) kw) of
             Inl e \<Rightarrow> Inl e
           | Inr env \<Rightarrow>
               Inr (env\<lparr>starstar :=
                  filter (\<lambda>(n, v). n \<notin> set (attrs spec) \<or> n \<in> set (take k (attrs spec))) kw\<rparr>))"

text \<open>
  A function written with \<^verbatim>\<open>def\<close>, its first \<open>k\<close> parameters positional-only:
  \<^verbatim>\<open>inspect.getargspec\<close> answers its signature, and a call binds the arguments and runs the
  body on the bindings and the instance. The body is a function of the two: it reads no
  other state.
\<close>

definition py_function ::
  "nat \<Rightarrow> 'v argspec \<Rightarrow>
     ('v bindings \<Rightarrow> ('v, 'x) model_instance \<Rightarrow> (error + 'r) \<times> ('v, 'x) model_instance) \<Rightarrow>
     ('r, 'v, 'x) pyfunc" where
  "py_function k spec body =
     \<lparr>getargspec = Inr spec,
      call = (\<lambda>self args kwargs.
        case py_bind_posonly k spec (Instance # map Value args) kwargs of
          Inl e \<Rightarrow> (Inl e, self)
        | Inr env \<Rightarrow> body env self)\<rparr>"

text \<open>The pure counterpart of \<open>config_setitems\<close>, on the dictionary alone.\<close>

fun store_pairs :: "'v dict \<Rightarrow> (string \<times> 'v) list \<Rightarrow> 'v dict" where
  "store_pairs d [] = d"
| "store_pairs d ((k, v) # ps) = store_pairs (dict_set d k v) ps"

text \<open>The pairs of the first pass (line 23), none when \<open>defaults\<close> is \<^verbatim>\<open>None\<close>.\<close>

definition default_pairs :: "'v argspec \<Rightarrow> (string \<times> 'v) list" where
  "default_pairs spec =
     (case defaults spec of None \<Rightarrow> [] | Some ds \<Rightarrow> zip (rev (attrs spec)) (rev ds))"

text \<open>
  What the language guarantees of every signature \<^verbatim>\<open>inspect.getargspec\<close> returns: the
  parameter names differ from each other, and there are no more defaults than parameters.
\<close>

definition argspec_ok :: "'v argspec \<Rightarrow> bool" where
  "argspec_ok spec =
     (distinct (attrs spec) \<and>
      (case defaults spec of None \<Rightarrow> True | Some ds \<Rightarrow> length ds \<le> length (attrs spec)))"

text \<open>The number of trailing parameters that have a default.\<close>

definition n_defaults :: "'v argspec \<Rightarrow> nat" where
  "n_defaults spec = (case defaults spec of None \<Rightarrow> 0 | Some ds \<Rightarrow> length ds)"


section \<open>Example classes and files\<close>

text \<open>
  \<^verbatim>\<open>class Net(LoadableModel):\<close>
  \<^verbatim>\<open>    @store_config_args\<close>
  \<^verbatim>\<open>    def __init__(self, filters, depth=4, name='net'): super().__init__()\<close>
  The rest of an instance is the list of what the framework has done to it.
\<close>

definition keras_init :: "(pyval option, pyval, string list) pymethod" where
  "keras_init self args kwargs = (Inr None, self\<lparr>rest := rest self @ [''initialized'']\<rparr>)"

definition Net_spec :: "pyval argspec" where
  "Net_spec =
     \<lparr>attrs = [''self'', ''filters'', ''depth'', ''name''], varargs = None, varkw = None,
      defaults = Some [PInt 4, PStr ''net'']\<rparr>"

definition Net_body ::
  "pyval bindings \<Rightarrow> (pyval, string list) model_instance \<Rightarrow>
     (error + pyval option) \<times> (pyval, string list) model_instance" where
  "Net_body env self = LoadableModel_init keras_init self [] []"

definition blank :: "(pyval, string list) model_instance" where
  "blank = \<lparr>config = None, config_oid = 0, next_oid = 0, rest = []\<rparr>"

definition Net :: "(pyval, string list) pyclass" where
  "Net = \<lparr>new_instance = blank, init = wrapper Net_spec (call (py_function 0 Net_spec Net_body))\<rparr>"

text \<open>The instance \<^verbatim>\<open>Net(32, name='vm')\<close>, and what is recorded on it.\<close>

definition Net_kw :: "pyval dict" where
  "Net_kw = [(''name'', PStr ''vm''), (''depth'', PInt 4), (''filters'', PInt 32)]"

definition Net_built :: "(pyval, string list) model_instance" where
  "Net_built = \<lparr>config = Some Net_kw, config_oid = 0, next_oid = 1, rest = [''initialized'']\<rparr>"




text \<open>\<^verbatim>\<open>def __init__(self=None, n=3)\<close>: every parameter has a default, the first too.\<close>

definition Selfdefault_spec :: "pyval argspec" where
  "Selfdefault_spec =
     \<lparr>attrs = [''self'', ''n''], varargs = None, varkw = None, defaults = Some [PNone, PInt 3]\<rparr>"


text \<open>\<^verbatim>\<open>def __init__(this, n)\<close>: the instance parameter under another name.\<close>

definition This_spec :: "pyval argspec" where
  "This_spec = \<lparr>attrs = [''this'', ''n''], varargs = None, varkw = None, defaults = None\<rparr>"





text \<open>
  \<^verbatim>\<open>def __init__(this, n, **kw): keras.Model.__init__(this)\<close>: a constructor that takes
  any keyword.
\<close>

definition AnyKw_spec :: "pyval argspec" where
  "AnyKw_spec = \<lparr>attrs = [''this'', ''n''], varargs = None, varkw = Some ''kw'', defaults = None\<rparr>"

definition AnyKw_body ::
  "pyval bindings \<Rightarrow> (pyval, string list) model_instance \<Rightarrow>
     (error + pyval option) \<times> (pyval, string list) model_instance" where
  "AnyKw_body env self = keras_init self [] []"

text \<open>
  \<^verbatim>\<open>def __init__(self, n): super().__init__(); self.config['built'] = True\<close>: a body
  that writes to the recorded mapping.
\<close>

definition Tamper_spec :: "pyval argspec" where
  "Tamper_spec = \<lparr>attrs = [''self'', ''n''], varargs = None, varkw = None, defaults = None\<rparr>"

definition Tamper_body ::
  "pyval bindings \<Rightarrow> (pyval, string list) model_instance \<Rightarrow>
     (error + pyval option) \<times> (pyval, string list) model_instance" where
  "Tamper_body env self =
     (case LoadableModel_init keras_init self [] [] of
        (Inl e, self1) \<Rightarrow> (Inl e, self1)
      | (Inr r, self1) \<Rightarrow> (Inr None, config_setitem self1 ''built'' (PBool True)))"

definition Tamper_built :: "(pyval, string list) model_instance" where
  "Tamper_built =
     \<lparr>config = Some [(''n'', PInt 1), (''built'', PBool True)], config_oid = 0, next_oid = 1,
      rest = [''initialized'']\<rparr>"

definition Tamper :: "(pyval, string list) pyclass" where
  "Tamper =
     \<lparr>new_instance = blank,
      init = wrapper Tamper_spec (call (py_function 0 Tamper_spec Tamper_body))\<rparr>"

text \<open>A function object that \<^verbatim>\<open>inspect.getargspec\<close> refuses (keyword-only parameters).\<close>

definition kwonly_func :: "(pyval option, pyval, string list) pyfunc" where
  "kwonly_func = \<lparr>getargspec = Inl ValueError, call = keras_init\<rparr>"

text \<open>
  A file system, a decoder and a parser. The container \<^verbatim>\<open>model.h5\<close> is a saved \<open>Net\<close>
  (\<^verbatim>\<open>noweights.h5\<close> has the same attribute, and the framework cannot read its weights);
  the others lack the attribute, hold it as text, hold bytes that are not UTF-8, hold a
  text that is not JSON, a JSON list, a JSON object without \<^verbatim>\<open>config\<close>, one whose
  \<^verbatim>\<open>config\<close> is a list, and one whose \<^verbatim>\<open>config\<close> names a parameter \<open>Net\<close> does not have. Files open
  for reading only. The decoder knows the byte strings of these files under the codec
  \<^verbatim>\<open>utf-8\<close>, the parser their texts.
\<close>

definition Net_json :: pyval where
  "Net_json = PDict [(''class_name'', PStr ''Net''), (''config'', PDict Net_kw)]"

definition attr_file :: "h5attr \<Rightarrow> h5file" where
  "attr_file a = (\<lambda>name. if name = ''model_config'' then Some a else None)"

definition nometa_file :: h5file where
  "nometa_file = (\<lambda>name. None)"

definition example_files :: "string \<Rightarrow> h5file option" where
  "example_files path =
     (if path = ''model.h5'' \<or> path = ''noweights.h5'' then Some (attr_file (AttrBytes [110, 101, 116]))
      else if path = ''nometa.h5'' then Some nometa_file
      else if path = ''textattr.h5'' then Some (attr_file (AttrStr ''net''))
      else if path = ''badbytes.h5'' then Some (attr_file (AttrBytes [255]))
      else if path = ''badjson.h5'' then Some (attr_file (AttrBytes [123]))
      else if path = ''toplist.h5'' then Some (attr_file (AttrBytes [4]))
      else if path = ''noconfig.h5'' then Some (attr_file (AttrBytes [1]))
      else if path = ''listconfig.h5'' then Some (attr_file (AttrBytes [2]))
      else if path = ''badargs.h5'' then Some (attr_file (AttrBytes [3]))
      else None)"

definition example_decode :: "string \<Rightarrow> bytes \<Rightarrow> error + string" where
  "example_decode codec b =
     (if codec \<noteq> ''utf-8'' then Inl LookupError
      else if b = [110, 101, 116] then Inr ''net''
      else if b = [123] then Inr ''{''
      else if b = [1] then Inr ''noconfig''
      else if b = [2] then Inr ''listconfig''
      else if b = [3] then Inr ''badargs''
      else if b = [4] then Inr ''toplist''
      else Inl UnicodeDecodeError)"

definition example_loads :: "string \<Rightarrow> error + pyval" where
  "example_loads s =
     (if s = ''net'' then Inr Net_json
      else if s = ''toplist'' then Inr (PList [])
      else if s = ''noconfig'' then Inr (PDict [(''class_name'', PStr ''Net'')])
      else if s = ''listconfig'' then Inr (PDict [(''config'', PList [])])
      else if s = ''badargs'' then Inr (PDict [(''config'', PDict [(''bogus'', PInt 1)])])
      else Inl JSONDecodeError)"

definition example_ext :: "string list externals" where
  "example_ext =
     \<lparr>h5py_File = (\<lambda>path mode.
        if mode \<noteq> ''r'' then Inl OSError
        else case example_files path of None \<Rightarrow> Inl OSError | Some f \<Rightarrow> Inr f),
      bytes_decode = example_decode,
      json_loads = example_loads,
      load_weights = (\<lambda>model path by_name.
        if path = ''noweights.h5'' then (Inl ValueError, model)
        else (Inr (), model\<lparr>rest := rest model @ [''weights'']\<rparr>))\<rparr>"

section \<open>Dictionaries and the three passes\<close>

lemma config_setitem_frame: "config_setitem s k v = s\<lparr>config := config (config_setitem s k v)\<rparr>"
  by (simp add: config_setitem_def split: option.splits)

lemma config_setitems_store:
  "config_setitems s ps = s\<lparr>config := map_option (\<lambda>d. store_pairs d ps) (config s)\<rparr>"
proof (induction ps arbitrary: s)
  case Nil
  show ?case by (simp add: option.map_ident)
next
  case (Cons p ps)
  obtain k v where p: "p = (k, v)" by (cases p)
  show ?case
    unfolding p config_setitems.simps Cons.IH
    by (cases "config s") (simp_all add: config_setitem_def)
qed

lemma record_args_frame:
  "record_args spec self args kwargs =
     self\<lparr>config := config (record_args spec self args kwargs), config_oid := next_oid self,
          next_oid := Suc (next_oid self)\<rparr>"
  by (simp add: record_args_def Let_def config_setitems_store split: option.splits)


lemma keys_dict_set:
  "keys (dict_set d k v) = (if k \<in> set (keys d) then keys d else keys d @ [k])"
  by (induction d) (force simp: keys_def)+




lemma set_keys_store_pairs: "set (keys (store_pairs d ps)) = set (keys d) \<union> fst ` set ps"
proof (induction ps arbitrary: d)
  case Nil
  show ?case by simp
next
  case (Cons p ps)
  obtain k v where p: "p = (k, v)" by (cases p)
  show ?case by (auto simp: p Cons.IH keys_dict_set)
qed


lemma record_args_config:
  "config (record_args spec self args kwargs) =
     Some (store_pairs (store_pairs (store_pairs [] (default_pairs spec))
       (zip (drop 1 (attrs spec)) args)) kwargs)"
  by (simp add: record_args_def Let_def config_setitems_store default_pairs_def split: option.splits)






















section \<open>Keys of the recorded mapping, and binding it again\<close>

lemma default_pairs_keys:
  assumes ok: "argspec_ok spec"
  shows "fst ` set (default_pairs spec) \<subseteq>
    set (drop (length (attrs spec) - n_defaults spec) (attrs spec))"
proof (cases "defaults spec")
  case None
  then show ?thesis by (simp add: default_pairs_def)
next
  case (Some ds)
  with ok have len: "length ds \<le> length (attrs spec)" by (simp add: argspec_ok_def)
  have "map fst (zip (rev (attrs spec)) (rev ds)) = take (length ds) (rev (attrs spec))"
    using len by (simp add: map_fst_zip_take min_def)
  also have "\<dots> = rev (drop (length (attrs spec) - length ds) (attrs spec))"
    using len by (simp add: rev_drop)
  finally have "map fst (default_pairs spec) =
      rev (drop (length (attrs spec) - n_defaults spec) (attrs spec))"
    by (simp add: default_pairs_def n_defaults_def Some)
  then have "set (map fst (default_pairs spec)) =
      set (drop (length (attrs spec) - n_defaults spec) (attrs spec))"
    by simp
  then show ?thesis by simp
qed

lemma keys_Nil: "keys [] = []"
  by (simp add: keys_def)

lemma recorded_keys:
  assumes c: "config (record_args spec self args kwargs) = Some c"
  shows "set (keys c) =
    fst ` set (default_pairs spec) \<union> fst ` set (zip (drop 1 (attrs spec)) args) \<union> set (keys kwargs)"
proof -
  have "c = store_pairs (store_pairs (store_pairs [] (default_pairs spec))
       (zip (drop 1 (attrs spec)) args)) kwargs"
    using c by (simp add: record_args_config)
  then have "set (keys c) = (fst ` set (default_pairs spec) \<union>
      fst ` set (zip (drop 1 (attrs spec)) args)) \<union> fst ` set kwargs"
    by (simp add: set_keys_store_pairs keys_Nil)
  then show ?thesis by (simp add: keys_def)
qed

lemma hd_not_in_drop:
  "distinct xs \<Longrightarrow> xs \<noteq> [] \<Longrightarrow> 0 < k \<Longrightarrow> hd xs \<notin> set (drop k xs)"
  by (cases xs; cases k) (auto dest: in_set_dropD)

lemma instance_param_fresh:
  assumes ok: "argspec_ok spec" and ne: "attrs spec \<noteq> []"
    and nodef: "n_defaults spec < length (attrs spec)"
    and nokw: "hd (attrs spec) \<notin> set (keys kwargs)"
    and c: "config (record_args spec self args kwargs) = Some c"
  shows "hd (attrs spec) \<notin> set (keys c)"
proof -
  from ok have dist: "distinct (attrs spec)" by (simp add: argspec_ok_def)
  have 1: "hd (attrs spec) \<notin> fst ` set (default_pairs spec)"
    using default_pairs_keys [OF ok] hd_not_in_drop [OF dist ne, of "length (attrs spec) - n_defaults spec"] nodef
    by auto
  have "fst ` set (zip (drop 1 (attrs spec)) args) \<subseteq> set (drop 1 (attrs spec))"
    by (auto dest: set_zip_leftD)
  with hd_not_in_drop [OF dist ne, of 1]
  have 2: "hd (attrs spec) \<notin> fst ` set (zip (drop 1 (attrs spec)) args)"
    by auto
  from 1 2 nokw show ?thesis
    unfolding recorded_keys [OF c] by simp
qed








lemma filter_keys_all:
  "\<forall>n \<in> set (keys d). P n \<Longrightarrow> filter (\<lambda>(n, v). P n) d = d"
  by (induction d) (auto simp: keys_def)



lemma keys_filter_subset: "set (keys (filter P d)) \<subseteq> set (keys d)"
  by (auto simp: keys_def)



lemma py_bind_starstar:
  "py_bind spec pos kw = Inr env \<Longrightarrow>
     starstar env = filter (\<lambda>(k, v). k \<notin> set (attrs spec)) kw"
  by (auto simp: py_bind_def split: if_splits sum.splits)

lemma py_bind_posonly_named:
  assumes named: "varkw spec = None \<or> k = 0"
    and bound: "py_bind_posonly k spec pos kw = Inr env"
  shows "py_bind spec pos kw = Inr env"
proof -
  let ?po = "set (take k (attrs spec))"
  have none: "\<forall>n \<in> set (keys kw). n \<notin> ?po"
    using named bound by (auto simp: py_bind_posonly_def split: if_splits)
  then have f1: "filter (\<lambda>(n, v). n \<notin> ?po) kw = kw"
    by (intro filter_keys_all [of kw "\<lambda>n. n \<notin> ?po"])
  have f2: "filter (\<lambda>(n, v). n \<notin> set (attrs spec) \<or> n \<in> ?po) kw =
      filter (\<lambda>(n, v). n \<notin> set (attrs spec)) kw"
    using none by (intro filter_cong) (auto simp: keys_def)
  from bound obtain env0 where e0: "py_bind spec pos kw = Inr env0"
    and env: "env = env0\<lparr>starstar := filter (\<lambda>(n, v). n \<notin> set (attrs spec)) kw\<rparr>"
    unfolding py_bind_posonly_def f1 f2 by (auto split: if_splits sum.splits)
  from py_bind_starstar [OF e0] env have "env = env0" by simp
  with e0 show ?thesis by simp
qed

section \<open>The examples, evaluated\<close>

lemma Net_record:
  "record_args Net_spec blank [PInt 32] [(''name'', PStr ''vm'')] =
     \<lparr>config = Some [(''name'', PStr ''vm''), (''depth'', PInt 4), (''filters'', PInt 32)],
      config_oid = 0, next_oid = 1, rest = []\<rparr>"
  by (simp add: record_args_def Net_spec_def blank_def config_setitem_def Let_def)


lemma Net_ok: "argspec_ok Net_spec"
  by (simp add: argspec_ok_def Net_spec_def)

lemmas example_defs =
  construct_def from_config_def wrapper_def record_args_def blank_def config_setitem_def Let_def
  py_function_def py_bind_posonly_def py_bind_def param_defaults_def keys_def
  LoadableModel_init_def keras_init_def Net_body_def

lemma Net_init_kw: "init Net (new_instance Net) [] Net_kw = (Inr None, Net_built)"
  by (simp add: example_defs Net_def Net_spec_def Net_kw_def Net_built_def)

lemma Net_construct_kw: "construct Net [] Net_kw = Inr Net_built"
  by (simp add: construct_def Net_init_kw)


lemma Net_init_bogus:
  "init Net (new_instance Net) [] [(''bogus'', PInt 1)] =
     (Inl TypeError,
      \<lparr>config = Some [(''name'', PStr ''net''), (''depth'', PInt 4), (''bogus'', PInt 1)],
       config_oid = 0, next_oid = 1, rest = []\<rparr>)"
  by (simp add: example_defs Net_def Net_spec_def)

lemma example_open:
  "h5py_File example_ext ''model.h5'' ''r'' = Inr (attr_file (AttrBytes [110, 101, 116]))"
  "h5py_File example_ext ''noweights.h5'' ''r'' = Inr (attr_file (AttrBytes [110, 101, 116]))"
  "h5py_File example_ext ''missing.h5'' ''r'' = Inl OSError"
  "h5py_File example_ext ''nometa.h5'' ''r'' = Inr nometa_file"
  "h5py_File example_ext ''textattr.h5'' ''r'' = Inr (attr_file (AttrStr ''net''))"
  "h5py_File example_ext ''badbytes.h5'' ''r'' = Inr (attr_file (AttrBytes [255]))"
  "h5py_File example_ext ''badjson.h5'' ''r'' = Inr (attr_file (AttrBytes [123]))"
  "h5py_File example_ext ''noconfig.h5'' ''r'' = Inr (attr_file (AttrBytes [1]))"
  "h5py_File example_ext ''listconfig.h5'' ''r'' = Inr (attr_file (AttrBytes [2]))"
  "h5py_File example_ext ''badargs.h5'' ''r'' = Inr (attr_file (AttrBytes [3]))"
  "h5py_File example_ext ''toplist.h5'' ''r'' = Inr (attr_file (AttrBytes [4]))"
  by (simp_all add: example_ext_def example_files_def)

lemma example_attr:
  "attr_file a ''model_config'' = Some a" "nometa_file ''model_config'' = None"
  by (simp_all add: attr_file_def nometa_file_def)

lemma example_decoded:
  "bytes_decode example_ext ''utf-8'' [110, 101, 116] = Inr ''net''"
  "bytes_decode example_ext ''utf-8'' [255] = Inl UnicodeDecodeError"
  "bytes_decode example_ext ''utf-8'' [123] = Inr ''{''"
  "bytes_decode example_ext ''utf-8'' [1] = Inr ''noconfig''"
  "bytes_decode example_ext ''utf-8'' [2] = Inr ''listconfig''"
  "bytes_decode example_ext ''utf-8'' [3] = Inr ''badargs''"
  "bytes_decode example_ext ''utf-8'' [4] = Inr ''toplist''"
  by (simp_all add: example_ext_def example_decode_def)

lemma example_parsed:
  "json_loads example_ext ''net'' = Inr (PDict [(''class_name'', PStr ''Net''), (''config'', PDict Net_kw)])"
  "json_loads example_ext ''{'' = Inl JSONDecodeError"
  "json_loads example_ext ''noconfig'' = Inr (PDict [(''class_name'', PStr ''Net'')])"
  "json_loads example_ext ''listconfig'' = Inr (PDict [(''config'', PList [])])"
  "json_loads example_ext ''badargs'' = Inr (PDict [(''config'', PDict [(''bogus'', PInt 1)])])"
  "json_loads example_ext ''toplist'' = Inr (PList [])"
  by (simp_all add: example_ext_def example_loads_def Net_json_def)

lemma example_weights:
  "load_weights example_ext Net_built ''model.h5'' False =
     (Inr (), Net_built\<lparr>rest := [''initialized'', ''weights'']\<rparr>)"
  "load_weights example_ext Net_built ''noweights.h5'' False = (Inl ValueError, Net_built)"
  by (simp_all add: example_ext_def Net_built_def)

section \<open>The claims\<close>






text \<open>
  Claim C3. When every step succeeds, \<open>load\<close> opens the file at \<open>path\<close> in mode
  \<^verbatim>\<open>r\<close>, reads the attribute \<^verbatim>\<open>model_config\<close>, decodes its bytes as \<^verbatim>\<open>utf-8\<close>, parses
  the text, takes the value under \<^verbatim>\<open>config\<close>, closes the file, calls the constructor on
  a new instance with that value as keyword arguments and no positional ones, calls
  \<^verbatim>\<open>load_weights\<close> with the same path and flag, and returns the instance, in this order.
  On every path, failing ones too, the file is closed before the constructor is called and
  before any weight is loaded: the events of a run are one of four lists.
\<close>

theorem load_steps_in_order:
  "(h5py_File ext path ''r'' = Inr f \<and> f ''model_config'' = Some (AttrBytes b) \<and>
    bytes_decode ext ''utf-8'' b = Inr s \<and> json_loads ext s = Inr (PDict d) \<and>
    map_of d ''config'' = Some (PDict kw) \<and>
    init cls (new_instance cls) [] kw = (Inr None, model) \<and>
    load_weights ext model path by_name = (Inr u, model')
    \<longrightarrow> load ext cls path by_name tr =
          (Inr model',
           tr @ [FileOpened path ''r'', AttrRead ''model_config'', FileClosed path,
                 ConstructorCalled kw, LoadWeightsCalled path by_name]))
   \<and> (snd (load ext cls path by_name tr) = tr
      \<or> snd (load ext cls path by_name tr) = tr @ read_events path
      \<or> (\<exists>kw. snd (load ext cls path by_name tr) =
           tr @ read_events path @ [ConstructorCalled kw])
      \<or> (\<exists>kw. snd (load ext cls path by_name tr) =
           tr @ read_events path @ [ConstructorCalled kw, LoadWeightsCalled path by_name]))"
proof
  show "h5py_File ext path ''r'' = Inr f \<and> f ''model_config'' = Some (AttrBytes b) \<and>
    bytes_decode ext ''utf-8'' b = Inr s \<and> json_loads ext s = Inr (PDict d) \<and>
    map_of d ''config'' = Some (PDict kw) \<and>
    init cls (new_instance cls) [] kw = (Inr None, model) \<and>
    load_weights ext model path by_name = (Inr u, model')
    \<longrightarrow> load ext cls path by_name tr =
          (Inr model',
           tr @ [FileOpened path ''r'', AttrRead ''model_config'', FileClosed path,
                 ConstructorCalled kw, LoadWeightsCalled path by_name])"
    by (simp add: load_def with_File_def read_model_config_def attr_decode_def getitem_def
        kwargs_of_def construct_def Let_def)
next
  let ?r = "with_File ext path ''r'' (read_model_config ext) tr"
  obtain r tr1 where r: "?r = (r, tr1)" by (cases ?r)
  have fail: "tr1 = tr \<or> tr1 = tr @ read_events path"
    using r
    by (auto simp: with_File_def read_model_config_def Let_def
        split: sum.splits prod.splits option.splits)
  have ok: "tr1 = tr @ read_events path" if "r = Inr cfg" for cfg
    using r that
    by (auto simp: with_File_def read_model_config_def Let_def
        split: sum.splits prod.splits option.splits)
  show "snd (load ext cls path by_name tr) = tr
      \<or> snd (load ext cls path by_name tr) = tr @ read_events path
      \<or> (\<exists>kw. snd (load ext cls path by_name tr) =
           tr @ read_events path @ [ConstructorCalled kw])
      \<or> (\<exists>kw. snd (load ext cls path by_name tr) =
           tr @ read_events path @ [ConstructorCalled kw, LoadWeightsCalled path by_name])"
  proof (cases r)
    case (Inl e)
    with r fail show ?thesis by (auto simp: load_def)
  next
    case (Inr cfg)
    note t = ok [OF Inr]
    show ?thesis
      unfolding load_def r Inr t
      by (simp split: sum.splits prod.splits)
  qed
qed

theorem load_steps_in_order_witness:
  "h5py_File example_ext ''model.h5'' ''r'' = Inr (attr_file (AttrBytes [110, 101, 116])) \<and>
   attr_file (AttrBytes [110, 101, 116]) ''model_config'' = Some (AttrBytes [110, 101, 116]) \<and>
   bytes_decode example_ext ''utf-8'' [110, 101, 116] = Inr ''net'' \<and>
   json_loads example_ext ''net'' =
     Inr (PDict [(''class_name'', PStr ''Net''), (''config'', PDict Net_kw)]) \<and>
   map_of [(''class_name'', PStr ''Net''), (''config'', PDict Net_kw)] ''config'' =
     Some (PDict Net_kw) \<and>
   init Net (new_instance Net) [] Net_kw = (Inr None, Net_built) \<and>
   load_weights example_ext Net_built ''model.h5'' False =
     (Inr (), Net_built\<lparr>rest := [''initialized'', ''weights'']\<rparr>) \<and>
   load example_ext Net ''model.h5'' False [] =
     (Inr (Net_built\<lparr>rest := [''initialized'', ''weights'']\<rparr>),
      [FileOpened ''model.h5'' ''r'', AttrRead ''model_config'', FileClosed ''model.h5'',
       ConstructorCalled Net_kw, LoadWeightsCalled ''model.h5'' False])"
proof -
  have h5: "map_of [(''class_name'', PStr ''Net''), (''config'', PDict Net_kw)] ''config'' =
     Some (PDict Net_kw)"
    by simp
  from load_steps_in_order [where ext = example_ext and path = "''model.h5''"
      and f = "attr_file (AttrBytes [110, 101, 116])" and b = "[110, 101, 116]"
      and s = "''net''" and d = "[(''class_name'', PStr ''Net''), (''config'', PDict Net_kw)]"
      and kw = Net_kw and cls = Net and model = Net_built and by_name = False and u = "()"
      and model' = "Net_built\<lparr>rest := [''initialized'', ''weights'']\<rparr>" and tr = "[]"]
    example_open(1) example_attr(1) example_decoded(1) example_parsed(1) h5 Net_init_kw
    example_weights(1)
  have "load example_ext Net ''model.h5'' False [] =
     (Inr (Net_built\<lparr>rest := [''initialized'', ''weights'']\<rparr>),
      [FileOpened ''model.h5'' ''r'', AttrRead ''model_config'', FileClosed ''model.h5'',
       ConstructorCalled Net_kw, LoadWeightsCalled ''model.h5'' False])"
    by simp
  with example_open(1) example_attr(1) example_decoded(1) example_parsed(1) h5 Net_init_kw
    example_weights(1)
  show ?thesis by simp
qed

text \<open>
  Claim C4. When the instance has no \<^verbatim>\<open>config\<close> attribute, the base constructor raises
  the \<^verbatim>\<open>RuntimeError\<close> that names \<^verbatim>\<open>@store_config_args\<close> and leaves the instance as it
  was, whatever the superclass constructor would do: that one is not called. When the
  attribute is there, the result is the superclass constructor's, called with the same
  arguments.
\<close>

theorem base_constructor_guard:
  "(config self = None \<longrightarrow>
      LoadableModel_init super_init self args kwargs =
        (Inl (RuntimeError
           ''models that inherit from LoadableModel must decorate the constructor with @store_config_args''),
         self))
   \<and> (config self \<noteq> None \<longrightarrow>
      LoadableModel_init super_init self args kwargs = super_init self args kwargs)"
  by (simp add: LoadableModel_init_def)

theorem base_constructor_guard_witness:
  "config blank = None \<and>
   LoadableModel_init keras_init blank [] [] =
     (Inl (RuntimeError
        ''models that inherit from LoadableModel must decorate the constructor with @store_config_args''),
      blank) \<and>
   config (blank\<lparr>config := Some []\<rparr>) \<noteq> None \<and>
   LoadableModel_init keras_init (blank\<lparr>config := Some []\<rparr>) [PInt 1] [] =
     keras_init (blank\<lparr>config := Some []\<rparr>) [PInt 1] []"
proof -
  have a: "config blank = None" by (simp add: blank_def)
  have b: "config (blank\<lparr>config := Some []\<rparr>) \<noteq> None" by simp
  from base_constructor_guard [of blank keras_init "[]" "[]"] a
    base_constructor_guard [of "blank\<lparr>config := Some []\<rparr>" keras_init "[PInt 1]" "[]"] b
  show ?thesis by simp
qed

text \<open>
  Claim C5. \<open>from_config cls c x\<close> is the call of the class with \<open>c\<close> unpacked as keyword
  arguments: it runs the constructor on a new instance with no positional argument and the
  keywords \<open>c\<close>, and returns that instance, or the constructor's exception; \<open>x\<close>, the
  argument \<^verbatim>\<open>custom_objects\<close>, has no part in it. \<open>load\<close>, once it has read the mapping
  \<open>kw\<close> from the file, builds what \<open>from_config\<close> builds from \<open>kw\<close>, and returns it after
  \<^verbatim>\<open>load_weights\<close>.
\<close>

theorem from_config_is_constructor_call:
  "from_config cls c x =
     (case init cls (new_instance cls) [] c of
        (Inl e, self) \<Rightarrow> Inl e
      | (Inr None, self) \<Rightarrow> Inr self
      | (Inr (Some r), self) \<Rightarrow> Inl TypeError)
   \<and> from_config cls c x = from_config cls c y
   \<and> (h5py_File ext path ''r'' = Inr f \<and> f ''model_config'' = Some (AttrBytes b) \<and>
       bytes_decode ext ''utf-8'' b = Inr s \<and> json_loads ext s = Inr (PDict d) \<and>
       map_of d ''config'' = Some (PDict kw)
       \<longrightarrow> fst (load ext cls path by_name tr) =
             (case from_config cls kw x of
                Inl e \<Rightarrow> Inl e
              | Inr model \<Rightarrow>
                  (case load_weights ext model path by_name of
                     (Inl e, model') \<Rightarrow> Inl e
                   | (Inr u, model') \<Rightarrow> Inr model')))"
proof (intro conjI)
  show "from_config cls c x =
     (case init cls (new_instance cls) [] c of
        (Inl e, self) \<Rightarrow> Inl e
      | (Inr None, self) \<Rightarrow> Inr self
      | (Inr (Some r), self) \<Rightarrow> Inl TypeError)"
    by (simp add: from_config_def construct_def)
  show "from_config cls c x = from_config cls c y"
    by (simp add: from_config_def)
  show "h5py_File ext path ''r'' = Inr f \<and> f ''model_config'' = Some (AttrBytes b) \<and>
       bytes_decode ext ''utf-8'' b = Inr s \<and> json_loads ext s = Inr (PDict d) \<and>
       map_of d ''config'' = Some (PDict kw)
       \<longrightarrow> fst (load ext cls path by_name tr) =
             (case from_config cls kw x of
                Inl e \<Rightarrow> Inl e
              | Inr model \<Rightarrow>
                  (case load_weights ext model path by_name of
                     (Inl e, model') \<Rightarrow> Inl e
                   | (Inr u, model') \<Rightarrow> Inr model'))"
    by (auto simp: load_def with_File_def read_model_config_def attr_decode_def getitem_def
        kwargs_of_def from_config_def Let_def
        split: sum.splits prod.splits)
qed

theorem from_config_is_constructor_call_witness:
  "init Net (new_instance Net) [] Net_kw = (Inr None, Net_built) \<and>
   from_config Net Net_kw (None :: unit option) = Inr Net_built \<and>
   from_config Net Net_kw (Some True) = Inr Net_built \<and>
   init Net (new_instance Net) [] [(''bogus'', PInt 1)] =
     (Inl TypeError,
      \<lparr>config = Some [(''name'', PStr ''net''), (''depth'', PInt 4), (''bogus'', PInt 1)],
       config_oid = 0, next_oid = 1, rest = []\<rparr>) \<and>
   from_config Net [(''bogus'', PInt 1)] (None :: unit option) = Inl TypeError \<and>
   fst (load example_ext Net ''model.h5'' False []) =
     Inr (Net_built\<lparr>rest := [''initialized'', ''weights'']\<rparr>)"
proof -
  have h5: "map_of [(''class_name'', PStr ''Net''), (''config'', PDict Net_kw)] ''config'' =
     Some (PDict Net_kw)"
    by simp
  have a: "from_config Net Net_kw (None :: unit option) = Inr Net_built"
    using from_config_is_constructor_call [THEN conjunct1, of Net Net_kw "None :: unit option"]
    by (simp add: Net_init_kw)
  have b: "from_config Net Net_kw (Some True) = Inr Net_built"
    using from_config_is_constructor_call
      [THEN conjunct2, THEN conjunct1, of Net Net_kw "Some True" "None :: unit option"] a
    by simp
  have c: "from_config Net [(''bogus'', PInt 1)] (None :: unit option) = Inl TypeError"
    using from_config_is_constructor_call
      [THEN conjunct1, of Net "[(''bogus'', PInt 1)]" "None :: unit option"]
    by (simp add: Net_init_bogus)
  from from_config_is_constructor_call [where ext = example_ext and path = "''model.h5''"
      and f = "attr_file (AttrBytes [110, 101, 116])" and b = "[110, 101, 116]"
      and s = "''net''" and d = "[(''class_name'', PStr ''Net''), (''config'', PDict Net_kw)]"
      and kw = Net_kw and cls = Net and by_name = False and tr = "[]"
      and x = "None :: unit option", THEN conjunct2, THEN conjunct2]
    example_open(1) example_attr(1) example_decoded(1) example_parsed(1) h5
  have d: "fst (load example_ext Net ''model.h5'' False []) =
     Inr (Net_built\<lparr>rest := [''initialized'', ''weights'']\<rparr>)"
    by (simp add: a example_weights(1))
  from a b c d Net_init_kw Net_init_bogus show ?thesis by simp
qed

text \<open>
  Claim C6, amended. The claim as it stands fails for a constructor whose body writes
  \<^verbatim>\<open>self.config['built'] = True\<close>: \<open>get_config\<close> then returns the object with that key,
  which the Argument Recorder did not store. What holds: for an instance built through a
  decorated constructor whose body leaves the attribute \<^verbatim>\<open>config\<close> alone (it does not
  bind it again and does not write into the object), \<open>get_config\<close> returns the stored
  Config Mapping verbatim: the very \<^verbatim>\<open>dict\<close> object line 19 created, not a copy (it has
  the identity that object was given), containing what the three passes recorded.
\<close>

theorem get_config_returns_stored:
  assumes header: "''self'' \<notin> set (keys kwargs)"
    and alone: "\<forall>s. config (snd (func s args kwargs)) = config s \<and>
      config_oid (snd (func s args kwargs)) = config_oid s"
  shows "\<exists>c. config (record_args spec self args kwargs) = Some c \<and>
     config_oid (record_args spec self args kwargs) = next_oid self \<and>
     get_config (snd (wrapper spec func self args kwargs)) = Inr (next_oid self, c)"
proof -
  obtain c where c: "config (record_args spec self args kwargs) = Some c"
    by (simp add: record_args_config)
  have oid: "config_oid (record_args spec self args kwargs) = next_oid self"
    by (subst record_args_frame) simp
  from alone have "config (snd (func (record_args spec self args kwargs) args kwargs)) = Some c"
    and "config_oid (snd (func (record_args spec self args kwargs) args kwargs)) = next_oid self"
    by (simp_all add: c oid)
  with header have "get_config (snd (wrapper spec func self args kwargs)) = Inr (next_oid self, c)"
    by (simp add: get_config_def wrapper_def)
  with c oid show ?thesis by blast
qed

theorem get_config_returns_stored_witness:
  "''self'' \<notin> set (keys [(''name'', PStr ''vm'')]) \<and>
   (\<forall>s. config (snd (keras_init s [PInt 32] [(''name'', PStr ''vm'')])) = config s \<and>
        config_oid (snd (keras_init s [PInt 32] [(''name'', PStr ''vm'')])) = config_oid s) \<and>
   next_oid blank = 0 \<and>
   get_config (snd (wrapper Net_spec keras_init blank [PInt 32] [(''name'', PStr ''vm'')])) =
     Inr (0, Net_kw)"
proof -
  have a: "''self'' \<notin> set (keys [(''name'', PStr ''vm'')])" by (simp add: keys_def)
  have b: "\<forall>s. config (snd (keras_init s [PInt 32] [(''name'', PStr ''vm'')])) = config s \<and>
        config_oid (snd (keras_init s [PInt 32] [(''name'', PStr ''vm'')])) = config_oid s"
    by (simp add: keras_init_def)
  have n: "next_oid blank = 0" by (simp add: blank_def)
  from get_config_returns_stored [where func = keras_init and args = "[PInt 32]"
      and kwargs = "[(''name'', PStr ''vm'')]" and spec = Net_spec and self = blank, OF a b]
  have "get_config (snd (wrapper Net_spec keras_init blank [PInt 32] [(''name'', PStr ''vm'')])) =
     Inr (0, Net_kw)"
    by (auto simp: Net_record Net_kw_def n)
  with a b n show ?thesis by simp
qed

theorem get_config_returns_stored_counterexample:
  "config (record_args Tamper_spec blank [PInt 1] []) = Some [(''n'', PInt 1)] \<and>
   construct Tamper [PInt 1] [] = Inr Tamper_built \<and>
   get_config Tamper_built = Inr (0, [(''n'', PInt 1), (''built'', PBool True)])"
  by (simp add: example_defs get_config_def Tamper_def Tamper_spec_def Tamper_body_def
      Tamper_built_def)

text \<open>
  Claim C7. \<open>load\<close> hands every failure to its caller as it is, and with it no instance:
  the file layer's exception when the file does not open (nothing has happened then); the
  \<^verbatim>\<open>KeyError\<close> of the missing attribute, the \<^verbatim>\<open>AttributeError\<close> of an attribute that
  is not a byte string, the decoder's exception, the parser's exception, the
  \<^verbatim>\<open>TypeError\<close> or \<^verbatim>\<open>KeyError\<close> of the subscript \<^verbatim>\<open>['config']\<close>, and the \<^verbatim>\<open>TypeError\<close>
  of unpacking a value that is no mapping (the file is closed in all these cases, and no
  constructor has been called); the constructor's exception; and the exception of
  \<^verbatim>\<open>load_weights\<close>. The cases follow the control flow of lines 82 to 86, and the last
  part says that \<open>load\<close> returns an instance only when every step succeeded.
\<close>

theorem load_failures_propagate:
  "(h5py_File ext path ''r'' = Inl e \<longrightarrow> load ext cls path by_name tr = (Inl e, tr))
   \<and> (h5py_File ext path ''r'' = Inr f \<longrightarrow>
        (f ''model_config'' = None \<longrightarrow>
           load ext cls path by_name tr =
             (Inl (KeyError ''model_config''), tr @ read_events path))
      \<and> (f ''model_config'' = Some (AttrStr t) \<longrightarrow>
           load ext cls path by_name tr =
             (Inl (AttributeError ''decode''), tr @ read_events path))
      \<and> (f ''model_config'' = Some (AttrBytes b) \<longrightarrow>
           (bytes_decode ext ''utf-8'' b = Inl e \<longrightarrow>
              load ext cls path by_name tr = (Inl e, tr @ read_events path))
         \<and> (bytes_decode ext ''utf-8'' b = Inr s \<longrightarrow>
              (json_loads ext s = Inl e \<longrightarrow>
                 load ext cls path by_name tr = (Inl e, tr @ read_events path))
            \<and> (json_loads ext s = Inr parsed \<longrightarrow>
                 ((\<forall>d. parsed \<noteq> PDict d) \<longrightarrow>
                    load ext cls path by_name tr = (Inl TypeError, tr @ read_events path))
               \<and> (parsed = PDict d \<longrightarrow>
                    (map_of d ''config'' = None \<longrightarrow>
                       load ext cls path by_name tr =
                         (Inl (KeyError ''config''), tr @ read_events path))
                  \<and> (map_of d ''config'' = Some cfg \<longrightarrow>
                       ((\<forall>kw. cfg \<noteq> PDict kw) \<longrightarrow>
                          load ext cls path by_name tr =
                            (Inl TypeError, tr @ read_events path))
                     \<and> (cfg = PDict kw \<longrightarrow>
                          (init cls (new_instance cls) [] kw = (Inl e, self1) \<longrightarrow>
                             load ext cls path by_name tr =
                               (Inl e, tr @ read_events path @ [ConstructorCalled kw]))
                        \<and> (init cls (new_instance cls) [] kw = (Inr None, model) \<and>
                           load_weights ext model path by_name = (Inl e, model') \<longrightarrow>
                             load ext cls path by_name tr =
                               (Inl e,
                                tr @ read_events path @
                                  [ConstructorCalled kw, LoadWeightsCalled path by_name])))))))))
   \<and> (load ext cls path by_name tr = (Inr m, tr') \<longrightarrow>
        (\<exists>f b s d kw model u.
           h5py_File ext path ''r'' = Inr f \<and> f ''model_config'' = Some (AttrBytes b) \<and>
           bytes_decode ext ''utf-8'' b = Inr s \<and> json_loads ext s = Inr (PDict d) \<and>
           map_of d ''config'' = Some (PDict kw) \<and>
           init cls (new_instance cls) [] kw = (Inr None, model) \<and>
           load_weights ext model path by_name = (Inr u, m)))"
proof (intro conjI impI)
  assume "h5py_File ext path ''r'' = Inl e"
  then show "load ext cls path by_name tr = (Inl e, tr)"
    by (simp add: load_def with_File_def)
next
  assume "h5py_File ext path ''r'' = Inr f" "f ''model_config'' = None"
  then show "load ext cls path by_name tr =
      (Inl (KeyError ''model_config''), tr @ read_events path)"
    by (simp add: load_def with_File_def read_model_config_def Let_def)
next
  assume "h5py_File ext path ''r'' = Inr f" "f ''model_config'' = Some (AttrStr t)"
  then show "load ext cls path by_name tr =
      (Inl (AttributeError ''decode''), tr @ read_events path)"
    by (simp add: load_def with_File_def read_model_config_def attr_decode_def Let_def)
next
  assume "h5py_File ext path ''r'' = Inr f" "f ''model_config'' = Some (AttrBytes b)"
    "bytes_decode ext ''utf-8'' b = Inl e"
  then show "load ext cls path by_name tr = (Inl e, tr @ read_events path)"
    by (simp add: load_def with_File_def read_model_config_def attr_decode_def Let_def)
next
  assume "h5py_File ext path ''r'' = Inr f" "f ''model_config'' = Some (AttrBytes b)"
    "bytes_decode ext ''utf-8'' b = Inr s" "json_loads ext s = Inl e"
  then show "load ext cls path by_name tr = (Inl e, tr @ read_events path)"
    by (simp add: load_def with_File_def read_model_config_def attr_decode_def Let_def)
next
  assume "h5py_File ext path ''r'' = Inr f" "f ''model_config'' = Some (AttrBytes b)"
    "bytes_decode ext ''utf-8'' b = Inr s" "json_loads ext s = Inr parsed"
    "\<forall>d. parsed \<noteq> PDict d"
  then show "load ext cls path by_name tr = (Inl TypeError, tr @ read_events path)"
    by (cases parsed)
      (simp_all add: load_def with_File_def read_model_config_def attr_decode_def getitem_def
        Let_def)
next
  assume "h5py_File ext path ''r'' = Inr f" "f ''model_config'' = Some (AttrBytes b)"
    "bytes_decode ext ''utf-8'' b = Inr s" "json_loads ext s = Inr parsed"
    "parsed = PDict d" "map_of d ''config'' = None"
  then show "load ext cls path by_name tr = (Inl (KeyError ''config''), tr @ read_events path)"
    by (simp add: load_def with_File_def read_model_config_def attr_decode_def getitem_def
        Let_def)
next
  assume "h5py_File ext path ''r'' = Inr f" "f ''model_config'' = Some (AttrBytes b)"
    "bytes_decode ext ''utf-8'' b = Inr s" "json_loads ext s = Inr parsed"
    "parsed = PDict d" "map_of d ''config'' = Some cfg" "\<forall>kw. cfg \<noteq> PDict kw"
  then show "load ext cls path by_name tr = (Inl TypeError, tr @ read_events path)"
    by (cases cfg)
      (simp_all add: load_def with_File_def read_model_config_def attr_decode_def getitem_def
        kwargs_of_def Let_def)
next
  assume "h5py_File ext path ''r'' = Inr f" "f ''model_config'' = Some (AttrBytes b)"
    "bytes_decode ext ''utf-8'' b = Inr s" "json_loads ext s = Inr parsed"
    "parsed = PDict d" "map_of d ''config'' = Some cfg" "cfg = PDict kw"
    "init cls (new_instance cls) [] kw = (Inl e, self1)"
  then show "load ext cls path by_name tr =
      (Inl e, tr @ read_events path @ [ConstructorCalled kw])"
    by (simp add: load_def with_File_def read_model_config_def attr_decode_def getitem_def
        kwargs_of_def construct_def Let_def)
next
  assume "h5py_File ext path ''r'' = Inr f" "f ''model_config'' = Some (AttrBytes b)"
    "bytes_decode ext ''utf-8'' b = Inr s" "json_loads ext s = Inr parsed"
    "parsed = PDict d" "map_of d ''config'' = Some cfg" "cfg = PDict kw"
    "init cls (new_instance cls) [] kw = (Inr None, model) \<and>
      load_weights ext model path by_name = (Inl e, model')"
  then show "load ext cls path by_name tr =
      (Inl e, tr @ read_events path @ [ConstructorCalled kw, LoadWeightsCalled path by_name])"
    by (simp add: load_def with_File_def read_model_config_def attr_decode_def getitem_def
        kwargs_of_def construct_def Let_def)
next
  assume "load ext cls path by_name tr = (Inr m, tr')"
  then show "\<exists>f b s d kw model u.
      h5py_File ext path ''r'' = Inr f \<and> f ''model_config'' = Some (AttrBytes b) \<and>
      bytes_decode ext ''utf-8'' b = Inr s \<and> json_loads ext s = Inr (PDict d) \<and>
      map_of d ''config'' = Some (PDict kw) \<and>
      init cls (new_instance cls) [] kw = (Inr None, model) \<and>
      load_weights ext model path by_name = (Inr u, m)"
    by (auto simp: load_def with_File_def read_model_config_def attr_decode_def getitem_def
        kwargs_of_def construct_def Let_def
        split: sum.splits option.splits prod.splits h5attr.splits pyval.splits)
qed

theorem load_failures_propagate_witness:
  "load example_ext Net ''missing.h5'' False [] = (Inl OSError, []) \<and>
   load example_ext Net ''nometa.h5'' False [] =
     (Inl (KeyError ''model_config''), read_events ''nometa.h5'') \<and>
   load example_ext Net ''textattr.h5'' False [] =
     (Inl (AttributeError ''decode''), read_events ''textattr.h5'') \<and>
   load example_ext Net ''badbytes.h5'' False [] =
     (Inl UnicodeDecodeError, read_events ''badbytes.h5'') \<and>
   load example_ext Net ''badjson.h5'' False [] =
     (Inl JSONDecodeError, read_events ''badjson.h5'') \<and>
   load example_ext Net ''toplist.h5'' False [] = (Inl TypeError, read_events ''toplist.h5'') \<and>
   load example_ext Net ''noconfig.h5'' False [] =
     (Inl (KeyError ''config''), read_events ''noconfig.h5'') \<and>
   load example_ext Net ''listconfig.h5'' False [] =
     (Inl TypeError, read_events ''listconfig.h5'') \<and>
   load example_ext Net ''badargs.h5'' False [] =
     (Inl TypeError, read_events ''badargs.h5'' @ [ConstructorCalled [(''bogus'', PInt 1)]]) \<and>
   load example_ext Net ''noweights.h5'' False [] =
     (Inl ValueError,
      read_events ''noweights.h5'' @
        [ConstructorCalled Net_kw, LoadWeightsCalled ''noweights.h5'' False])"
proof -
  note A = load_failures_propagate
    [where ext = example_ext and cls = Net and by_name = False and tr = "[]"]
  note B = A [THEN conjunct2, THEN conjunct1, THEN mp]
  note C = B [THEN conjunct2, THEN conjunct2, THEN mp]
  note D = C [THEN conjunct2, THEN mp]
  note E = D [THEN conjunct2, THEN mp]
  note F = E [THEN conjunct2, THEN mp]
  note G = F [THEN conjunct2, THEN mp]
  note H = G [THEN conjunct2, THEN mp]
  have m8: "map_of [(''config'', PList [])] ''config'' = Some (PList [])"
    and m9: "map_of [(''config'', PDict [(''bogus'', PInt 1)])] ''config'' =
      Some (PDict [(''bogus'', PInt 1)])"
    and m10: "map_of [(''class_name'', PStr ''Net''), (''config'', PDict Net_kw)] ''config'' =
      Some (PDict Net_kw)"
    by simp_all
  have 1: "load example_ext Net ''missing.h5'' False [] = (Inl OSError, [])"
    using A [THEN conjunct1, THEN mp, OF example_open(3)] by simp
  have 2: "load example_ext Net ''nometa.h5'' False [] =
     (Inl (KeyError ''model_config''), read_events ''nometa.h5'')"
    using B [OF example_open(4), THEN conjunct1, THEN mp, OF example_attr(2)] by simp
  have 3: "load example_ext Net ''textattr.h5'' False [] =
     (Inl (AttributeError ''decode''), read_events ''textattr.h5'')"
    using B [OF example_open(5), THEN conjunct2, THEN conjunct1, THEN mp, OF example_attr(1)]
    by simp
  have 4: "load example_ext Net ''badbytes.h5'' False [] =
     (Inl UnicodeDecodeError, read_events ''badbytes.h5'')"
    using C [OF example_open(6) example_attr(1), THEN conjunct1, THEN mp, OF example_decoded(2)]
    by simp
  have 5: "load example_ext Net ''badjson.h5'' False [] =
     (Inl JSONDecodeError, read_events ''badjson.h5'')"
    using D [OF example_open(7) example_attr(1) example_decoded(3), THEN conjunct1, THEN mp,
      OF example_parsed(2)]
    by simp
  have 6: "load example_ext Net ''toplist.h5'' False [] = (Inl TypeError, read_events ''toplist.h5'')"
    using E [OF example_open(11) example_attr(1) example_decoded(7) example_parsed(6),
      THEN conjunct1, THEN mp]
    by simp
  have 7: "load example_ext Net ''noconfig.h5'' False [] =
     (Inl (KeyError ''config''), read_events ''noconfig.h5'')"
    using F [OF example_open(8) example_attr(1) example_decoded(4) example_parsed(3) refl,
      THEN conjunct1, THEN mp]
    by simp
  have 8: "load example_ext Net ''listconfig.h5'' False [] =
     (Inl TypeError, read_events ''listconfig.h5'')"
    using G [OF example_open(9) example_attr(1) example_decoded(5) example_parsed(4) refl m8,
      THEN conjunct1, THEN mp]
    by simp
  have 9: "load example_ext Net ''badargs.h5'' False [] =
     (Inl TypeError, read_events ''badargs.h5'' @ [ConstructorCalled [(''bogus'', PInt 1)]])"
    using H [OF example_open(10) example_attr(1) example_decoded(6) example_parsed(5) refl m9 refl,
      THEN conjunct1, THEN mp, OF Net_init_bogus]
    by simp
  have 10: "load example_ext Net ''noweights.h5'' False [] =
     (Inl ValueError,
      read_events ''noweights.h5'' @
        [ConstructorCalled Net_kw, LoadWeightsCalled ''noweights.h5'' False])"
    using H [OF example_open(2) example_attr(1) example_decoded(1) example_parsed(1) refl m10 refl,
      THEN conjunct2, THEN mp, OF conjI [OF Net_init_kw example_weights(2)]]
    by simp
  from 1 2 3 4 5 6 7 8 9 10 show ?thesis by simp
qed

text \<open>
  Claim C8, amended. The claim as it stands fails for \<^verbatim>\<open>def __init__(this, n, **kw)\<close>
  called with the keyword \<^verbatim>\<open>self=5\<close>: the original constructor takes the keyword and
  returns, the wrapper refuses it at its own parameter list. What holds: for every call
  without a keyword named \<^verbatim>\<open>self\<close>, the wrapper returns what the original constructor
  returns (value or exception, and the instance it leaves), called with the same
  positional and keyword arguments on the instance after the three passes; the three
  passes set the attribute \<^verbatim>\<open>config\<close> and leave the rest of the instance as it was; so for
  an original constructor that looks at and changes only the rest of the instance, the
  wrapped call returns or raises what the bare call does and leaves the same rest. A call
  with a keyword named \<^verbatim>\<open>self\<close> raises \<^verbatim>\<open>TypeError\<close> and leaves the instance untouched.
\<close>

theorem wrapper_transparent:
  "(''self'' \<notin> set (keys kwargs) \<longrightarrow>
      wrapper spec func self args kwargs = func (record_args spec self args kwargs) args kwargs)
   \<and> (''self'' \<in> set (keys kwargs) \<longrightarrow>
      wrapper spec func self args kwargs = (Inl TypeError, self))
   \<and> rest (record_args spec self args kwargs) = rest self
   \<and> config (record_args spec self args kwargs) \<noteq> None
   \<and> (''self'' \<notin> set (keys kwargs) \<and>
       (\<forall>s s'. rest s = rest s' \<longrightarrow>
          fst (func s args kwargs) = fst (func s' args kwargs) \<and>
          rest (snd (func s args kwargs)) = rest (snd (func s' args kwargs)))
       \<longrightarrow> fst (wrapper spec func self args kwargs) = fst (func self args kwargs) \<and>
           rest (snd (wrapper spec func self args kwargs)) = rest (snd (func self args kwargs)))"
proof (intro conjI impI)
  assume "''self'' \<notin> set (keys kwargs)"
  then show "wrapper spec func self args kwargs =
      func (record_args spec self args kwargs) args kwargs"
    by (simp add: wrapper_def)
next
  assume "''self'' \<in> set (keys kwargs)"
  then show "wrapper spec func self args kwargs = (Inl TypeError, self)"
    by (simp add: wrapper_def)
next
  show r: "rest (record_args spec self args kwargs) = rest self"
    by (subst record_args_frame) simp
  show "config (record_args spec self args kwargs) \<noteq> None"
    by (simp add: record_args_config)
  assume h: "''self'' \<notin> set (keys kwargs) \<and>
       (\<forall>s s'. rest s = rest s' \<longrightarrow>
          fst (func s args kwargs) = fst (func s' args kwargs) \<and>
          rest (snd (func s args kwargs)) = rest (snd (func s' args kwargs)))"
  then have w: "wrapper spec func self args kwargs =
      func (record_args spec self args kwargs) args kwargs"
    by (simp add: wrapper_def)
  from h r have same: "fst (func (record_args spec self args kwargs) args kwargs) =
        fst (func self args kwargs) \<and>
      rest (snd (func (record_args spec self args kwargs) args kwargs)) =
        rest (snd (func self args kwargs))"
    by blast
  from same show "fst (wrapper spec func self args kwargs) = fst (func self args kwargs)"
    unfolding w by (rule conjunct1)
  from same show "rest (snd (wrapper spec func self args kwargs)) =
      rest (snd (func self args kwargs))"
    unfolding w by (rule conjunct2)
qed

theorem wrapper_transparent_witness:
  "''self'' \<notin> set (keys [(''name'', PStr ''vm'')]) \<and>
   wrapper Net_spec keras_init blank [PInt 32] [(''name'', PStr ''vm'')] =
     (Inr None, Net_built) \<and>
   keras_init blank [PInt 32] [(''name'', PStr ''vm'')] =
     (Inr None, blank\<lparr>rest := [''initialized'']\<rparr>) \<and>
   rest Net_built = [''initialized''] \<and>
   ''self'' \<in> set (keys [(''self'', PInt 5)]) \<and>
   wrapper Net_spec keras_init blank [] [(''self'', PInt 5)] = (Inl TypeError, blank)"
proof -
  have a: "''self'' \<notin> set (keys [(''name'', PStr ''vm'')])" by (simp add: keys_def)
  have b: "''self'' \<in> set (keys [(''self'', PInt 5)])" by (simp add: keys_def)
  have k: "keras_init blank [PInt 32] [(''name'', PStr ''vm'')] =
     (Inr None, blank\<lparr>rest := [''initialized'']\<rparr>)"
    by (simp add: keras_init_def blank_def)
  from wrapper_transparent [where kwargs = "[(''name'', PStr ''vm'')]" and spec = Net_spec
      and func = keras_init and self = blank and args = "[PInt 32]", THEN conjunct1] a
  have 1: "wrapper Net_spec keras_init blank [PInt 32] [(''name'', PStr ''vm'')] =
     (Inr None, Net_built)"
    by (simp add: Net_record keras_init_def Net_built_def Net_kw_def)
  from wrapper_transparent [where kwargs = "[(''self'', PInt 5)]" and spec = Net_spec
      and func = keras_init and self = blank and args = "[]", THEN conjunct2, THEN conjunct1] b
  have 2: "wrapper Net_spec keras_init blank [] [(''self'', PInt 5)] = (Inl TypeError, blank)"
    by simp
  from a b k 1 2 show ?thesis by (simp add: Net_built_def)
qed

theorem wrapper_transparent_counterexample:
  "call (py_function 0 AnyKw_spec AnyKw_body) blank [PInt 1] [(''self'', PInt 5)] =
     (Inr None, blank\<lparr>rest := [''initialized'']\<rparr>) \<and>
   wrapper AnyKw_spec (call (py_function 0 AnyKw_spec AnyKw_body)) blank [PInt 1]
     [(''self'', PInt 5)] = (Inl TypeError, blank)"
  by (simp add: example_defs AnyKw_spec_def AnyKw_body_def)

text \<open>
  Claim C9. When \<^verbatim>\<open>inspect.getargspec\<close> raises for the function, applying the decorator
  raises the same exception and yields no wrapper; a wrapper exists only when the
  signature was read, and then it closes over that signature.
\<close>

theorem decoration_fails_fast:
  "(getargspec func = Inl e \<longrightarrow> store_config_args func = Inl e)
   \<and> (store_config_args func = Inr w \<longrightarrow>
        (\<exists>spec. getargspec func = Inr spec \<and> w = wrapper spec (call func)))"
  by (auto simp: store_config_args_def split: sum.splits)

theorem decoration_fails_fast_witness:
  "getargspec kwonly_func = Inl ValueError \<and> store_config_args kwonly_func = Inl ValueError \<and>
   store_config_args (py_function 0 Net_spec Net_body) =
     Inr (wrapper Net_spec (call (py_function 0 Net_spec Net_body)))"
proof -
  have a: "getargspec kwonly_func = Inl ValueError" by (simp add: kwonly_func_def)
  have b: "store_config_args (py_function 0 Net_spec Net_body) =
     Inr (wrapper Net_spec (call (py_function 0 Net_spec Net_body)))"
    by (simp add: store_config_args_def py_function_def)
  from decoration_fails_fast [where func = kwonly_func and e = ValueError] a b
  show ?thesis by simp
qed

text \<open>
  Claim C10, amended. The claim as it stands fails for \<^verbatim>\<open>def __init__(self=None, n=3)\<close>:
  the pass over the defaults reaches the first parameter; and for
  \<^verbatim>\<open>def __init__(this, n)\<close> called with the keyword \<^verbatim>\<open>this=5\<close>, which the pass over the
  keywords records before the original constructor refuses it. What holds: when the instance
  parameter has no default (there are fewer defaults than parameters) and no keyword
  argument has its name, the recorded Config Mapping does not have the instance parameter
  as a key; its keys are among the trailing parameters that have defaults, the parameters
  after the first, and the keyword names.
\<close>

theorem instance_parameter_not_recorded:
  assumes ok: "argspec_ok spec" and ne: "attrs spec \<noteq> []"
    and nodef: "n_defaults spec < length (attrs spec)"
    and nokw: "hd (attrs spec) \<notin> set (keys kwargs)"
  shows "\<exists>c. config (record_args spec self args kwargs) = Some c \<and>
     hd (attrs spec) \<notin> set (keys c) \<and>
     set (keys c) \<subseteq>
       set (drop (length (attrs spec) - n_defaults spec) (attrs spec)) \<union>
       set (drop 1 (attrs spec)) \<union> set (keys kwargs)"
proof -
  obtain c where c: "config (record_args spec self args kwargs) = Some c"
    by (simp add: record_args_config)
  have "fst ` set (zip (drop 1 (attrs spec)) args) \<subseteq> set (drop 1 (attrs spec))"
    by (auto dest: set_zip_leftD)
  with default_pairs_keys [OF ok]
  have "set (keys c) \<subseteq>
       set (drop (length (attrs spec) - n_defaults spec) (attrs spec)) \<union>
       set (drop 1 (attrs spec)) \<union> set (keys kwargs)"
    unfolding recorded_keys [OF c] by blast
  with c instance_param_fresh [OF ok ne nodef nokw c] show ?thesis by blast
qed

theorem instance_parameter_not_recorded_witness:
  "argspec_ok Net_spec \<and> attrs Net_spec \<noteq> [] \<and>
   n_defaults Net_spec < length (attrs Net_spec) \<and>
   hd (attrs Net_spec) \<notin> set (keys [(''name'', PStr ''vm'')]) \<and>
   (\<exists>c. config (record_args Net_spec blank [PInt 32] [(''name'', PStr ''vm'')]) = Some c \<and>
        ''self'' \<notin> set (keys c))"
proof -
  have h2: "attrs Net_spec \<noteq> []" by (simp add: Net_spec_def)
  have h3: "n_defaults Net_spec < length (attrs Net_spec)"
    by (simp add: n_defaults_def Net_spec_def)
  have h4: "hd (attrs Net_spec) \<notin> set (keys [(''name'', PStr ''vm'')])"
    by (simp add: Net_spec_def keys_def)
  have hd: "hd (attrs Net_spec) = ''self''" by (simp add: Net_spec_def)
  from instance_parameter_not_recorded [OF Net_ok h2 h3 h4, of blank "[PInt 32]"]
  have "\<exists>c. config (record_args Net_spec blank [PInt 32] [(''name'', PStr ''vm'')]) = Some c \<and>
        ''self'' \<notin> set (keys c)"
    unfolding hd by blast
  with Net_ok h2 h3 h4 show ?thesis by simp
qed

theorem instance_parameter_recorded_counterexample:
  "hd (attrs Selfdefault_spec) = ''self'' \<and>
   config (record_args Selfdefault_spec blank [] []) = Some [(''n'', PInt 3), (''self'', PNone)] \<and>
   hd (attrs This_spec) = ''this'' \<and>
   config (record_args This_spec blank [PInt 1] [(''this'', PInt 5)]) =
     Some [(''n'', PInt 1), (''this'', PInt 5)]"
  by (simp add: Selfdefault_spec_def This_spec_def record_args_def blank_def config_setitem_def
      Let_def)

end
